theory Spec2Isabelle
  imports Main "HOL-Library.Word" "HOL-Library.Multiset"
begin

unbundle bit_operations_syntax

section \<open>Go values\<close>

text \<open>
  The programs are Linux only (\<open>dircolors\<close> casts \<open>info.Sys()\<close> to
  \<open>*syscall.Stat_t\<close>, \<open>dufmt\<close> issues the \<open>TCGETS\<close> ioctl), and \<open>dufmt\<close> converts
  its sizes with \<open>uint64(info.size)\<close>: Go's \<open>int\<close> is taken at its 64-bit width. A
  \<open>go_int\<close> is the stored bit pattern; \<open>sint\<close> reads the signed value Go computes with,
  \<open>+\<close> wraps around as Go's does.

  A Go \<open>string\<close> and a \<open>[]byte\<close> are byte sequences: \<open>string\<close> here.

  A function that returns \<open>(T, error)\<close> is modelled with result type \<open>err + T\<close>
  (\<open>Inl\<close> the error). Where a run-time panic is possible the result is wrapped in
  \<open>option\<close>, and \<open>None\<close> is the panic.
\<close>

type_synonym go_int = "64 word"

definition uint64 :: "go_int \<Rightarrow> 64 word" where
  \<comment> \<open>the conversion \<open>uint64(x)\<close> of an \<open>int\<close>: the signed value, reduced modulo \<open>2^64\<close>\<close>
  "uint64 x = word_of_int (sint x)"

section \<open>Library functions of \<open>strings\<close>, \<open>bytes\<close> and \<open>strconv\<close>\<close>

text \<open>
  \<open>strings.Split(s, sep)\<close> and \<open>bytes.Split(s, sep)\<close> for a separator of one byte: the
  pieces between the separators, one more than there are separators (so a single empty
  piece for the empty input).
\<close>

fun Split :: "char \<Rightarrow> string \<Rightarrow> string list" where
  "Split sep [] = [[]]"
| "Split sep (c # cs) =
     (if c = sep then [] # Split sep cs
      else (case Split sep cs of [] \<Rightarrow> [[c]] | w # ws \<Rightarrow> (c # w) # ws))"

text \<open>
  \<open>strings.SplitN(s, sep, 2)\<close> for a separator of one byte: the text before the first
  separator and everything after it, or \<open>s\<close> alone when it holds no separator.
\<close>

definition SplitN2 :: "char \<Rightarrow> string \<Rightarrow> string list" where
  "SplitN2 sep s =
     (if sep \<in> set s
      then [takeWhile (\<lambda>c. c \<noteq> sep) s, tl (dropWhile (\<lambda>c. c \<noteq> sep) s)]
      else [s])"

text \<open>Indexing a slice: out of range is a run-time panic (\<open>None\<close>).\<close>

definition index :: "'a list \<Rightarrow> nat \<Rightarrow> 'a option" where
  "index xs i = (if i < length xs then Some (xs ! i) else None)"

text \<open>
  \<open>strconv.Atoi\<close>: an optional sign \<open>+\<close> or \<open>-\<close>, then one or more decimal digits;
  \<open>ErrSyntax\<close> for any other text, \<open>ErrRange\<close> when the number does not fit an \<open>int\<close>.
\<close>

datatype NumError = ErrSyntax | ErrRange

definition is_digit :: "char \<Rightarrow> bool" where
  "is_digit c = (48 \<le> (of_char c :: nat) \<and> (of_char c :: nat) \<le> 57)"

definition digits_val :: "string \<Rightarrow> int" where
  "digits_val ds = foldl (\<lambda>n c. n * 10 + (of_char c - 48)) 0 ds"

definition Atoi :: "string \<Rightarrow> NumError + go_int" where
  "Atoi s =
     (let signed = (s \<noteq> [] \<and> (hd s = CHR ''+'' \<or> hd s = CHR ''-''));
          neg = (s \<noteq> [] \<and> hd s = CHR ''-'');
          ds = (if signed then tl s else s)
      in if ds = [] \<or> \<not> list_all is_digit ds then Inl ErrSyntax
         else
           (let v = (if neg then - digits_val ds else digits_val ds)
            in if v < - (2 ^ 63) \<or> 2 ^ 63 - 1 < v then Inl ErrRange
               else Inr (word_of_int v)))"

section \<open>\<open>dufmt\<close>: the records\<close>

record duInfo =
  name :: string
  size' :: go_int
  childrenCount :: go_int

type_synonym duSlice = "duInfo list"

text \<open>\<open>Less(i, j)\<close> of \<open>duSlice\<close> compares the sizes of the two elements as signed integers.\<close>

definition Less :: "duInfo \<Rightarrow> duInfo \<Rightarrow> bool" where
  "Less x y = (sint (size' x) < sint (size' y))"

text \<open>The loop of \<open>total\<close>, from the running sum \<open>t\<close>; each addition wraps around.\<close>

fun total_from :: "go_int \<Rightarrow> duSlice \<Rightarrow> go_int" where
  "total_from t [] = t"
| "total_from t (x # xs) = total_from (t + size' x) xs"

definition total :: "duSlice \<Rightarrow> go_int" where
  "total s = total_from 0 s"

section \<open>\<open>dufmt\<close>: counting the entries under a path\<close>

text \<open>
  \<open>filepath.Walk(root, walkFn)\<close> calls \<open>walkFn\<close> for the entries it reaches, with
  \<open>err = nil\<close> for an entry it could read, and with the error when \<open>Lstat\<close> of the
  root, or reading a directory or one of its entries, failed. When \<open>walkFn\<close> returns
  an error (other than \<open>SkipDir\<close>, which the closure below never returns of itself)
  \<open>Walk\<close> stops at once and returns that error. The file system gives, for a root,
  the calls \<open>Walk\<close> makes for as long as \<open>walkFn\<close> keeps returning \<open>nil\<close>, in their
  order: \<open>Visit path\<close> is a call with \<open>err = nil\<close>, \<open>Fail path msg\<close> one with an
  error. A walk that cannot start is a sequence that begins with a \<open>Fail\<close>.
\<close>

datatype walk_call = Visit string | Fail string string

fun filepath_Walk ::
  "walk_call list \<Rightarrow> (walk_call \<Rightarrow> 's \<Rightarrow> string option \<times> 's) \<Rightarrow> 's \<Rightarrow> string option \<times> 's" where
  "filepath_Walk [] walkFn st = (None, st)"
| "filepath_Walk (c # cs) walkFn st =
     (case walkFn c st of
        (Some err, st') \<Rightarrow> (Some err, st')
      | (None, st') \<Rightarrow> filepath_Walk cs walkFn st')"

text \<open>
  The closure \<open>walk\<close> of \<open>count\<close>: the state is the captured result variable \<open>n\<close>.
\<close>

definition walk :: "walk_call \<Rightarrow> go_int \<Rightarrow> string option \<times> go_int" where
  "walk c n = (case c of Fail path err \<Rightarrow> (Some err, n) | Visit path \<Rightarrow> (None, n + 1))"

text \<open>\<open>count\<close> drops the error \<open>filepath.Walk\<close> returns and returns \<open>n\<close>.\<close>

definition count' :: "(string \<Rightarrow> walk_call list) \<Rightarrow> string \<Rightarrow> go_int" where
  "count' walk_calls fpath = snd (filepath_Walk (walk_calls fpath) walk 0)"

section \<open>\<open>dufmt\<close>: parsing the output of \<open>du\<close>\<close>

datatype du_error = UnexpectedFormat string NumError

text \<open>
  One iteration of the loop of \<open>newDuSlice\<close> for a line that is not empty: the record
  to append, the error to return, or the panic of \<open>items[1]\<close> out of range.
\<close>

definition parse_line :: "(string \<Rightarrow> walk_call list) \<Rightarrow> string \<Rightarrow> (du_error + duInfo) option" where
  "parse_line walk_calls line =
     (let items = SplitN2 (CHR 0x09) line in
      case index items 0 of
        None \<Rightarrow> None
      | Some item0 \<Rightarrow>
          (case Atoi item0 of
             Inl err \<Rightarrow> Some (Inl (UnexpectedFormat line err))
           | Inr sz \<Rightarrow>
               (case index items 1 of
                  None \<Rightarrow> None
                | Some item1 \<Rightarrow>
                    Some (Inr \<lparr>name = item1, size' = sz,
                               childrenCount = count' walk_calls item1\<rparr>))))"

fun parse_lines ::
  "(string \<Rightarrow> walk_call list) \<Rightarrow> string list \<Rightarrow> duSlice \<Rightarrow> (du_error + duSlice) option" where
  "parse_lines walk_calls [] s = Some (Inr s)"
| "parse_lines walk_calls (line # ls) s =
     (if line = [] then parse_lines walk_calls ls s
      else (case parse_line walk_calls line of
              None \<Rightarrow> None
            | Some (Inl err) \<Rightarrow> Some (Inl err)
            | Some (Inr info) \<Rightarrow> parse_lines walk_calls ls (s @ [info])))"

definition newDuSlice :: "(string \<Rightarrow> walk_call list) \<Rightarrow> string \<Rightarrow> (du_error + duSlice) option" where
  "newDuSlice walk_calls data = parse_lines walk_calls (Split (CHR 0x0A) data) []"

section \<open>The environment and the libraries\<close>

text \<open>
  What the programs read from the operating system: \<open>os.Stat\<close> (an error, or a
  \<open>FileInfo\<close> of which only \<open>IsDir()\<close> is used), \<open>os.Lstat\<close>, whether \<open>os.Readlink\<close>
  fails, \<open>filepath.Glob\<close>, the calls of \<open>filepath.Walk\<close>, the result of running
  \<open>du\<close> with given arguments and of running \<open>dircolors -b\<close>, the variable
  \<open>LS_COLORS\<close>, and whether standard output is a terminal (\<open>isTerminal\<close>).

  Of a \<open>FileInfo\<close> that \<open>Lstat\<close> returns, \<open>mode\<close> is its \<open>os.FileMode\<close> (32 bits) and
  \<open>nlink\<close> the link count of its \<open>*syscall.Stat_t\<close>, \<open>None\<close> when \<open>Sys()\<close> is not one.
\<close>

datatype stat_result = StatErr string | StatOk bool

record FileInfo =
  mode :: "32 word"
  nlink :: "64 word option"

datatype lstat_result = LstatNotExist | LstatErr string | LstatOk FileInfo

record env =
  os_Stat :: "string \<Rightarrow> stat_result"
  os_Lstat :: "string \<Rightarrow> lstat_result"
  Readlink_fails :: "string \<Rightarrow> bool"
  filepath_Glob :: "string \<Rightarrow> string + string list"
  walk_calls :: "string \<Rightarrow> walk_call list"
  exec_du :: "string list \<Rightarrow> string + string"
  exec_dircolors :: "string + string"
  LS_COLORS :: string
  isTerminal :: bool

text \<open>
  Library functions the programs call and this development does not define:
  \<open>sort.Sort\<close> on a \<open>duSlice\<close>, \<open>humanize.IBytes\<close> and \<open>filepath.Join\<close>.
\<close>

record stdlib =
  sort_Sort :: "duSlice \<Rightarrow> duSlice"
  humanize_IBytes :: "64 word \<Rightarrow> string"
  filepath_Join :: "string \<Rightarrow> string \<Rightarrow> string"

text \<open>
  What the documentation of \<open>sort.Sort\<close> promises of its result \<open>s'\<close> on \<open>s\<close>: the
  elements are those of \<open>s\<close>, rearranged so that no element is \<open>Less\<close> than one before
  it. The documentation adds that the sort is not guaranteed to be stable.
\<close>

definition sorts :: "duSlice \<Rightarrow> duSlice \<Rightarrow> bool" where
  "sorts s s' = (mset s' = mset s \<and> sorted_wrt (\<lambda>x y. \<not> Less y x) s')"

section \<open>\<open>sort.Sort\<close> on a short slice\<close>

text \<open>
  The run of \<open>sort.Sort\<close> on a \<open>duSlice\<close> of at most 13 elements, as package \<open>sort\<close>
  implements it since Go 1.19 (pattern-defeating quicksort). The functions work on the
  slice through \<open>Less\<close> and \<open>Swap\<close> alone, on indices that are in range.
\<close>

definition Swap :: "duSlice \<Rightarrow> nat \<Rightarrow> nat \<Rightarrow> duSlice" where
  "Swap data i j = data[i := data ! j, j := data ! i]"

text \<open>
  \<open>insertionSort(data, a, b)\<close>: for \<open>i\<close> from \<open>a + 1\<close> below \<open>b\<close>, the element at
  \<open>i\<close> is swapped back while \<open>j > a\<close> and it is \<open>Less\<close> than the one before it
  (\<open>insert_back\<close>, on the index \<open>j\<close>).
\<close>

fun insert_back :: "duSlice \<Rightarrow> nat \<Rightarrow> nat \<Rightarrow> duSlice" where
  "insert_back data a 0 = data"
| "insert_back data a (Suc j) =
     (if a < Suc j \<and> Less (data ! Suc j) (data ! j)
      then insert_back (Swap data (Suc j) j) a j
      else data)"

definition insertionSort :: "duSlice \<Rightarrow> nat \<Rightarrow> nat \<Rightarrow> duSlice" where
  "insertionSort data a b = foldl (\<lambda>d i. insert_back d a i) data [a + 1..<b]"

text \<open>
  \<open>choosePivot(data, a, b)\<close>: the index of the median of three elements (of three
  medians of adjacent elements from 50 elements on), and the number of swaps of indices
  that \<open>order2\<close> made in finding it. The caller reads the hint off that number: none
  means \<open>increasingHint\<close>, twelve \<open>decreasingHint\<close>.
\<close>

definition order2 :: "duSlice \<Rightarrow> nat \<Rightarrow> nat \<Rightarrow> nat \<Rightarrow> nat \<times> nat \<times> nat" where
  "order2 data a b swaps =
     (if Less (data ! b) (data ! a) then (b, a, swaps + 1) else (a, b, swaps))"

definition median :: "duSlice \<Rightarrow> nat \<Rightarrow> nat \<Rightarrow> nat \<Rightarrow> nat \<Rightarrow> nat \<times> nat" where
  "median data a b c swaps =
     (case order2 data a b swaps of (a1, b1, s1) \<Rightarrow>
      case order2 data b1 c s1 of (b2, c2, s2) \<Rightarrow>
      case order2 data a1 b2 s2 of (a3, b3, s3) \<Rightarrow> (b3, s3))"

definition medianAdjacent :: "duSlice \<Rightarrow> nat \<Rightarrow> nat \<Rightarrow> nat \<times> nat" where
  "medianAdjacent data a swaps = median data (a - 1) a (a + 1) swaps"

definition choosePivot :: "duSlice \<Rightarrow> nat \<Rightarrow> nat \<Rightarrow> nat \<times> nat" where
  "choosePivot data a b =
     (let l = b - a; i = a + l div 4 * 1; j = a + l div 4 * 2; k = a + l div 4 * 3
      in if 8 \<le> l then
           (if 50 \<le> l then
              (case medianAdjacent data i 0 of (i1, s1) \<Rightarrow>
               case medianAdjacent data j s1 of (j1, s2) \<Rightarrow>
               case medianAdjacent data k s2 of (k1, s3) \<Rightarrow> median data i1 j1 k1 s3)
            else median data i j k 0)
         else (j, 0))"

text \<open>
  The two inner loops of \<open>partition\<close>, with the pivot at \<open>a\<close>: \<open>i\<close> moves up while
  \<open>i \<le> j\<close> and the element at \<open>i\<close> is \<open>Less\<close> than the pivot; \<open>j\<close> moves down while
  \<open>i \<le> j\<close> and the element at \<open>j\<close> is not.
\<close>

definition scan_up :: "duSlice \<Rightarrow> nat \<Rightarrow> nat \<Rightarrow> nat \<Rightarrow> nat" where
  "scan_up data a i j = i + length (takeWhile (\<lambda>k. Less (data ! k) (data ! a)) [i..<j + 1])"

definition scan_down :: "duSlice \<Rightarrow> nat \<Rightarrow> nat \<Rightarrow> nat \<Rightarrow> nat" where
  "scan_down data a i j =
     j - length (takeWhile (\<lambda>k. \<not> Less (data ! k) (data ! a)) (rev [i..<j + 1]))"

text \<open>
  The outer loop of \<open>partition\<close>: both scans, then the end of the loop with \<open>j\<close> when
  they have crossed, or a swap and one more turn.
\<close>

function partition_loop :: "duSlice \<Rightarrow> nat \<Rightarrow> nat \<Rightarrow> nat \<Rightarrow> duSlice \<times> nat" where
  "partition_loop data a i j =
     (let i1 = scan_up data a i j; j1 = scan_down data a i1 j
      in if j1 < i1 then (data, j1)
         else partition_loop (Swap data i1 j1) a (i1 + 1) (j1 - 1))"
  by pat_completeness auto
termination
  by (relation "measure (\<lambda>(data, a, i, j). Suc j - i)")
    (auto simp add: scan_up_def scan_down_def)

declare partition_loop.simps [simp del]

text \<open>
  \<open>partition(data, a, b, pivot)\<close>: the slice, the new index of the pivot, and whether
  the range was already partitioned.
\<close>

definition partition :: "duSlice \<Rightarrow> nat \<Rightarrow> nat \<Rightarrow> nat \<Rightarrow> duSlice \<times> nat \<times> bool" where
  "partition data0 a b pivot =
     (let data = Swap data0 a pivot;
          i = scan_up data a (a + 1) (b - 1);
          j = scan_down data a i (b - 1)
      in if j < i then (Swap data j a, j, True)
         else
           (case partition_loop (Swap data i j) a (i + 1) (j - 1) of
              (data1, j1) \<Rightarrow> (Swap data1 j1 a, j1, False)))"

text \<open>
  \<open>partialInsertionSort(data, a, b)\<close> on a range of fewer than 50 elements: it
  answers \<open>true\<close> when no element is \<open>Less\<close> than the one before it, and \<open>false\<close> at
  the first that is; it leaves the slice as it is.
\<close>

definition partialInsertionSort :: "duSlice \<Rightarrow> nat \<Rightarrow> nat \<Rightarrow> bool" where
  "partialInsertionSort data a b =
     list_all (\<lambda>i. \<not> Less (data ! i) (data ! (i - 1))) [a + 1..<b]"

text \<open>
  \<open>pdqsort(data, 0, b, limit)\<close> as \<open>Sort\<close> starts it: \<open>a = 0\<close>, \<open>limit\<close> is not 0, and
  the last partitioning counts as balanced and partitioned. Up to 12 elements it is
  \<open>insertionSort\<close>. With 13, \<open>choosePivot\<close> makes at most three swaps, so the hint is
  never \<open>decreasingHint\<close>; after \<open>partition\<close> both parts have at most 12 elements, and
  the recursive call and the next turn of the loop finish them with \<open>insertionSort\<close>,
  the shorter part first. A longer range (which can reach \<open>heapSort\<close>,
  \<open>breakPatterns\<close> and \<open>partitionEqual\<close>) is not covered: \<open>None\<close>.
\<close>

definition pdqsort :: "duSlice \<Rightarrow> nat \<Rightarrow> duSlice option" where
  "pdqsort data b =
     (if b \<le> 12 then Some (insertionSort data 0 b)
      else if 13 < b then None
      else
        (case choosePivot data 0 b of (pivot, swaps) \<Rightarrow>
           if swaps = 0 \<and> partialInsertionSort data 0 b then Some data
           else
             (case partition data 0 b pivot of (data1, mid, alreadyPartitioned) \<Rightarrow>
                if mid - 0 < b - mid
                then Some (insertionSort (insertionSort data1 0 mid) (mid + 1) b)
                else Some (insertionSort (insertionSort data1 (mid + 1) b) 0 mid))))"

definition go_Sort :: "duSlice \<Rightarrow> duSlice option" where
  "go_Sort data = (let n = length data in if n \<le> 1 then Some data else pdqsort data n)"

section \<open>\<open>dufmt\<close>: the paths to report on\<close>

definition paths :: "env \<Rightarrow> stdlib \<Rightarrow> string list \<Rightarrow> string + string list" where
  "paths e l args =
     (if length args = 0 then filepath_Glob e ''*''
      else if length args = 1 then
        (let first = hd args in
         case os_Stat e first of
           StatErr err \<Rightarrow> Inl err
         | StatOk isDir \<Rightarrow>
             if isDir then filepath_Glob e (filepath_Join l first ''*'') else Inr args)
      else Inr args)"

section \<open>\<open>dircolors\<close>: the code of a path\<close>

definition Reset :: string where "Reset = ''rs''"
definition Dir :: string where "Dir = ''di''"
definition Link :: string where "Link = ''ln''"
definition MultiHardlink :: string where "MultiHardlink = ''mh''"
definition NamedPipe :: string where "NamedPipe = ''pi''"
definition Socket :: string where "Socket = ''so''"
definition BlockDevice :: string where "BlockDevice = ''bd''"
definition CharDevice :: string where "CharDevice = ''cd''"
definition Orphan :: string where "Orphan = ''or''"
definition Setuid :: string where "Setuid = ''su''"
definition Setgid :: string where "Setgid = ''sg''"
definition Executable :: string where "Executable = ''ex''"

text \<open>The bits of \<open>os.FileMode\<close> that \<open>Key\<close> tests, as package \<open>os\<close> declares them.\<close>

definition ModeDir :: "32 word" where "ModeDir = push_bit 31 1"
definition ModeSymlink :: "32 word" where "ModeSymlink = push_bit 27 1"
definition ModeDevice :: "32 word" where "ModeDevice = push_bit 26 1"
definition ModeNamedPipe :: "32 word" where "ModeNamedPipe = push_bit 25 1"
definition ModeSocket :: "32 word" where "ModeSocket = push_bit 24 1"
definition ModeSetuid :: "32 word" where "ModeSetuid = push_bit 23 1"
definition ModeSetgid :: "32 word" where "ModeSetgid = push_bit 22 1"
definition ModeCharDevice :: "32 word" where "ModeCharDevice = push_bit 21 1"

text \<open>The mask \<open>0111\<close> (octal) of the three execute permission bits.\<close>

definition exec_bits :: "32 word" where "exec_bits = 0x49"

text \<open>
  \<open>filepath.Ext\<close>: scanning from the end of the path up to the last separator, the
  suffix that starts at the first dot met; empty when there is none. \<open>ext_scan\<close> walks
  the reversed path, \<open>seen\<close> being the bytes already passed.
\<close>

fun ext_scan :: "string \<Rightarrow> string \<Rightarrow> string" where
  "ext_scan [] seen = []"
| "ext_scan (c # cs) seen =
     (if c = CHR ''/'' then []
      else if c = CHR ''.'' then c # seen
      else ext_scan cs (c # seen))"

definition Ext :: "string \<Rightarrow> string" where
  "Ext path = ext_scan (rev path) []"

datatype key_error = LstatFailed string | UnsupportedSystem

definition Key :: "env \<Rightarrow> string \<Rightarrow> key_error + string" where
  "Key e fpath =
     (case os_Lstat e fpath of
        LstatNotExist \<Rightarrow> Inr Orphan
      | LstatErr err \<Rightarrow> Inl (LstatFailed err)
      | LstatOk info \<Rightarrow>
          if mode info AND ModeDir \<noteq> 0 then Inr Dir
          else if mode info AND ModeSymlink \<noteq> 0 then
            (if Readlink_fails e fpath then Inr Orphan else Inr Link)
          else if mode info AND ModeNamedPipe \<noteq> 0 then Inr NamedPipe
          else if mode info AND ModeSocket \<noteq> 0 then Inr Socket
          else if mode info AND ModeDevice \<noteq> 0 then
            (if mode info AND ModeCharDevice \<noteq> 0 then Inr CharDevice else Inr BlockDevice)
          else if mode info AND ModeSetuid \<noteq> 0 then Inr Setuid
          else if mode info AND ModeSetgid \<noteq> 0 then Inr Setgid
          else if mode info AND exec_bits \<noteq> 0 then Inr Executable
          else
            (case nlink info of
               None \<Rightarrow> Inl UnsupportedSystem
             | Some n \<Rightarrow>
                 if 1 < n then Inr MultiHardlink
                 else if Ext fpath \<noteq> [] then Inr (''*'' @ Ext fpath)
                 else Inr Reset))"

section \<open>\<open>dircolors\<close>: the color database\<close>

text \<open>
  \<open>strings.Index\<close> and \<open>strings.LastIndex\<close> for one byte; \<open>None\<close> stands for \<open>-1\<close>.
\<close>

definition Index :: "string \<Rightarrow> char \<Rightarrow> nat option" where
  "Index s c = (if c \<in> set s then Some (length (takeWhile (\<lambda>x. x \<noteq> c) s)) else None)"

definition LastIndex :: "string \<Rightarrow> char \<Rightarrow> nat option" where
  "LastIndex s c =
     (if c \<in> set s then Some (length s - 1 - length (takeWhile (\<lambda>x. x \<noteq> c) (rev s)))
      else None)"

text \<open>
  \<open>execDircolors\<close>: the text between the first and the last quote of the command's
  output. The slice \<open>data[start+1 : end]\<close> panics when \<open>start + 1 > end\<close>.
\<close>

definition execDircolors :: "env \<Rightarrow> (string + string) option" where
  "execDircolors e =
     (case exec_dircolors e of
        Inl err \<Rightarrow> Some (Inl err)
      | Inr data \<Rightarrow>
          (case Index data (CHR 0x27) of
             None \<Rightarrow> Some (Inl ''bad format'')
           | Some start \<Rightarrow>
               (case LastIndex data (CHR 0x27) of
                  None \<Rightarrow> Some (Inl ''bad format'')
                | Some stop \<Rightarrow>
                    if start + 1 \<le> stop
                    then Some (Inr (take (stop - (start + 1)) (drop (start + 1) data)))
                    else None)))"

text \<open>
  The body of the loop of \<open>parseDircolors\<close>, and the loop over the pairs of \<open>s\<close>.
  When \<open>execDircolors\<close> returns an error, \<open>s\<close> is the empty string it returns with
  it; the warning logged then is not part of the model.
\<close>

definition add_pair :: "(string \<rightharpoonup> string) \<Rightarrow> string \<Rightarrow> (string \<rightharpoonup> string)" where
  "add_pair m pair =
     (let items = SplitN2 (CHR ''='') pair
      in if length items = 2 then m(items ! 0 \<mapsto> items ! 1) else m)"

definition parse_pairs :: "string \<Rightarrow> (string \<rightharpoonup> string)" where
  "parse_pairs s = foldl add_pair Map.empty (Split (CHR '':'') s)"

definition parseDircolors :: "env \<Rightarrow> (string \<rightharpoonup> string) option" where
  "parseDircolors e =
     (if LS_COLORS e = [] then
        (case execDircolors e of
           None \<Rightarrow> None
         | Some (Inl err) \<Rightarrow> Some (parse_pairs [])
         | Some (Inr s) \<Rightarrow> Some (parse_pairs s))
      else Some (parse_pairs (LS_COLORS e)))"

text \<open>Reading a Go map of strings: the empty string for a key that is absent.\<close>

definition lookup :: "(string \<rightharpoonup> string) \<Rightarrow> string \<Rightarrow> string" where
  "lookup m k = (case m k of None \<Rightarrow> [] | Some v \<Rightarrow> v)"

text \<open>
  \<open>ForTTY\<close> reads and fills the package variable \<open>tty\<close> (\<open>None\<close> is the \<open>nil\<close> map it
  starts as): the result is the text and the new value of \<open>tty\<close>.
\<close>

definition ForTTY ::
  "env \<Rightarrow> (string \<rightharpoonup> string) option \<Rightarrow> string \<Rightarrow> (string \<times> (string \<rightharpoonup> string) option) option" where
  "ForTTY e tty fpath =
     (case (case tty of None \<Rightarrow> parseDircolors e | Some m \<Rightarrow> Some m) of
        None \<Rightarrow> None
      | Some m \<Rightarrow>
          Some (case Key e fpath of
                  Inl err \<Rightarrow> fpath
                | Inr key \<Rightarrow>
                    if lookup m key = [] then fpath
                    else [CHR 0x1B] @ ''['' @ lookup m key @ ''m'' @ fpath @ [CHR 0x1B] @ ''[0m'',
                Some m))"

section \<open>\<open>dufmt\<close>: writing the report\<close>

definition pad_left :: "nat \<Rightarrow> string \<Rightarrow> string" where
  "pad_left w s = replicate (w - length s) (CHR '' '') @ s"

fun decimal :: "nat \<Rightarrow> string" where
  "decimal n =
     (if n < 10 then [''0123456789'' ! n]
      else decimal (n div 10) @ [''0123456789'' ! (n mod 10)])"

declare decimal.simps [simp del]

definition formatCount :: "go_int \<Rightarrow> string" where
  "formatCount n = (if sint n \<le> 1 then ''         '' else pad_left 9 (decimal (unat n)))"

text \<open>\<open>fmt.Sprintf("%12s %s %s\n", humanized, count, name)\<close>.\<close>

definition report_line :: "string \<Rightarrow> string \<Rightarrow> string \<Rightarrow> string" where
  "report_line humanized cnt nm = pad_left 12 humanized @ '' '' @ cnt @ '' '' @ nm @ [CHR 0x0A]"

text \<open>
  The loop of \<open>WriteAll\<close>: the state is the text written so far and \<open>tty\<close>.
\<close>

fun write_records ::
  "env \<Rightarrow> stdlib \<Rightarrow> bool \<Rightarrow> duSlice \<Rightarrow> string \<times> (string \<rightharpoonup> string) option \<Rightarrow>
   (string \<times> (string \<rightharpoonup> string) option) option" where
  "write_records e l colorize [] st = Some st"
| "write_records e l colorize (info # s) st =
     (let humanized = humanize_IBytes l (uint64 (size' info)) in
      case (if colorize then ForTTY e (snd st) (name info) else Some (name info, snd st)) of
        None \<Rightarrow> None
      | Some (nm, tty) \<Rightarrow>
          write_records e l colorize s
            (fst st @ report_line humanized (formatCount (childrenCount info)) nm, tty))"

definition WriteAll ::
  "env \<Rightarrow> stdlib \<Rightarrow> string \<Rightarrow> duSlice \<Rightarrow> string \<times> (string \<rightharpoonup> string) option \<Rightarrow>
   (string \<times> (string \<rightharpoonup> string) option) option" where
  "WriteAll e l color s st =
     write_records e l (color = ''always'' \<or> (color = ''auto'' \<and> isTerminal e)) s st"

section \<open>\<open>dufmt\<close>: the program\<close>

text \<open>
  What \<open>main\<close> hands to \<open>WriteAll\<close>: the parsed records as \<open>sort.Sort\<close> left them, then
  the record \<open>total\<close>.
\<close>

definition with_total :: "stdlib \<Rightarrow> duSlice \<Rightarrow> duSlice" where
  "with_total l s =
     (let s1 = sort_Sort l s
      in s1 @ [\<lparr>name = ''total'', size' = total s1, childrenCount = 0\<rparr>])"

text \<open>
  A run of \<open>main\<close> ends in \<open>glog.Exit\<close> (a logged message and exit status 1), in a
  panic, or with the report on standard output.
\<close>

datatype diagnostic = BadArgs string | CannotExecuteDu string | Malformed du_error

datatype outcome = Exit diagnostic | Panicked | Printed string

definition baseDuArgs :: "string list" where
  "baseDuArgs = [''--summarize'', ''--bytes'', ''--'']"

definition execDu :: "env \<Rightarrow> string list \<Rightarrow> string + string" where
  "execDu e ps = exec_du e (baseDuArgs @ ps)"

definition main :: "env \<Rightarrow> stdlib \<Rightarrow> string \<Rightarrow> string list \<Rightarrow> outcome" where
  "main e l color args =
     (case paths e l args of
        Inl err \<Rightarrow> Exit (BadArgs err)
      | Inr ps \<Rightarrow>
          (case execDu e ps of
             Inl err \<Rightarrow> Exit (CannotExecuteDu err)
           | Inr data \<Rightarrow>
               (case newDuSlice (walk_calls e) data of
                  None \<Rightarrow> Panicked
                | Some (Inl err) \<Rightarrow> Exit (Malformed err)
                | Some (Inr s) \<Rightarrow>
                    (case WriteAll e l color (with_total l s) ([], None) of
                       None \<Rightarrow> Panicked
                     | Some (out, tty) \<Rightarrow> Printed out))))"

section \<open>Notions of the specification\<close>

text \<open>A call of the walk function that reports an entry, not an error.\<close>

definition visited :: "walk_call \<Rightarrow> bool" where
  "visited c = (case c of Visit path \<Rightarrow> True | Fail path err \<Rightarrow> False)"

text \<open>
  A pair of the color specification that sets the key \<open>k\<close>: it holds a \<open>=\<close>, and \<open>k\<close>
  is its text before the first one.
\<close>

definition stored_by :: "string \<Rightarrow> string \<Rightarrow> bool" where
  "stored_by k pair = (CHR ''='' \<in> set pair \<and> takeWhile (\<lambda>c. c \<noteq> CHR ''='') pair = k)"

text \<open>
  The classifier as the specification words it. What it inspects of an entry that
  exists, the priority order of its rules for such an entry (each a condition and the
  code it yields), and the choice of the first rule whose condition holds, \<open>reset\<close>
  when none does.
\<close>

record metadata =
  directory :: bool
  symlink :: bool
  target_resolves :: bool
  named_pipe :: bool
  socket :: bool
  device :: bool
  char_device :: bool
  setuid_bit :: bool
  setgid_bit :: bool
  exec_bit :: bool
  hard_links :: nat
  extension :: string

definition priority_order :: "metadata \<Rightarrow> (bool \<times> string) list" where
  "priority_order m =
     [(directory m, ''di''),
      (symlink m \<and> \<not> target_resolves m, ''or''),
      (symlink m, ''ln''),
      (named_pipe m, ''pi''),
      (socket m, ''so''),
      (device m \<and> char_device m, ''cd''),
      (device m, ''bd''),
      (setuid_bit m, ''su''),
      (setgid_bit m, ''sg''),
      (exec_bit m, ''ex''),
      (1 < hard_links m, ''mh''),
      (extension m \<noteq> [], ''*'' @ extension m)]"

fun first_match :: "(bool \<times> string) list \<Rightarrow> string \<Rightarrow> string" where
  "first_match [] otherwise = otherwise"
| "first_match ((holds, code) # rules) otherwise =
     (if holds then code else first_match rules otherwise)"

definition category_code :: "metadata \<Rightarrow> string" where
  "category_code m = first_match (priority_order m) ''rs''"

text \<open>
  The metadata of the entry at \<open>fpath\<close>, read off what \<open>Lstat\<close> returned for it
  (\<open>info\<close>, with link count \<open>n\<close>) and the path's name. The target of a link
  resolves when \<open>os.Stat\<close>, which follows links, succeeds on the path.
\<close>

definition metadata_of :: "env \<Rightarrow> string \<Rightarrow> FileInfo \<Rightarrow> 64 word \<Rightarrow> metadata" where
  "metadata_of e fpath info n =
     \<lparr>directory = (mode info AND ModeDir \<noteq> 0),
      symlink = (mode info AND ModeSymlink \<noteq> 0),
      target_resolves = (case os_Stat e fpath of StatErr err \<Rightarrow> False | StatOk isDir \<Rightarrow> True),
      named_pipe = (mode info AND ModeNamedPipe \<noteq> 0),
      socket = (mode info AND ModeSocket \<noteq> 0),
      device = (mode info AND ModeDevice \<noteq> 0),
      char_device = (mode info AND ModeCharDevice \<noteq> 0),
      setuid_bit = (mode info AND ModeSetuid \<noteq> 0),
      setgid_bit = (mode info AND ModeSetgid \<noteq> 0),
      exec_bit = (mode info AND exec_bits \<noteq> 0),
      hard_links = unat n,
      extension = Ext fpath\<rparr>"

section \<open>A sample installation\<close>

text \<open>
  A library whose \<open>sort.Sort\<close> is insertion sort by size, with a stand-in for
  \<open>humanize.IBytes\<close> that prints the number of bytes.
\<close>

definition sample_lib :: stdlib where
  "sample_lib =
     \<lparr>sort_Sort = sort_key (\<lambda>x. sint (size' x)),
      humanize_IBytes = (\<lambda>w. decimal (unat w) @ '' B''),
      filepath_Join = (\<lambda>a b. a @ ''/'' @ b)\<rparr>"

text \<open>
  A directory \<open>docs\<close> (mode \<open>drwsr-xr-x\<close>), an executable \<open>run.sh\<close> with two links, a
  plain file \<open>notes.txt\<close>, a link \<open>stale\<close> to a file that is gone (\<open>os.Readlink\<close>
  reads it, \<open>os.Stat\<close> fails on it), and the path \<open>notes.txt/x\<close> below a plain file,
  on which \<open>Lstat\<close> fails with \<open>ENOTDIR\<close>. \<open>stat_t\<close> says whether \<open>Sys()\<close> is a
  \<open>*syscall.Stat_t\<close> on this platform.
\<close>

definition sample_lstat :: "bool \<Rightarrow> string \<Rightarrow> lstat_result" where
  "sample_lstat stat_t p =
     (if p = ''docs'' then
        LstatOk \<lparr>mode = ModeDir OR ModeSetuid OR 0x1ED, nlink = (if stat_t then Some 2 else None)\<rparr>
      else if p = ''run.sh'' then
        LstatOk \<lparr>mode = 0x1ED, nlink = (if stat_t then Some 2 else None)\<rparr>
      else if p = ''notes.txt'' then
        LstatOk \<lparr>mode = 0x1A4, nlink = (if stat_t then Some 1 else None)\<rparr>
      else if p = ''stale'' then
        LstatOk \<lparr>mode = ModeSymlink OR 0x1FF, nlink = (if stat_t then Some 1 else None)\<rparr>
      else if p = ''notes.txt/x'' then LstatErr ''not a directory''
      else LstatNotExist)"

definition sample_du :: string where
  "sample_du =
     ''4096'' @ [CHR 0x09] @ ''run.sh'' @ [CHR 0x0A] @ ''1024'' @ [CHR 0x09] @ ''notes.txt'' @ [CHR 0x0A]"

definition sample_walk :: "string \<Rightarrow> walk_call list" where
  "sample_walk p =
     (if p = ''docs'' then
        [Visit ''docs'', Fail ''docs/a'' ''permission denied'', Visit ''docs/b'']
      else if p = ''run.sh'' \<or> p = ''notes.txt'' then [Visit p]
      else [Fail p ''no such file or directory''])"

definition sample_env :: "bool \<Rightarrow> env" where
  "sample_env stat_t =
     \<lparr>os_Stat = (\<lambda>p. if p = ''docs'' then StatOk True
                      else if p = ''run.sh'' \<or> p = ''notes.txt'' then StatOk False
                      else StatErr ''no such file or directory''),
      os_Lstat = sample_lstat stat_t,
      Readlink_fails = (\<lambda>p. False),
      filepath_Glob = (\<lambda>pat. if pat = ''*'' then Inr [''docs'', ''notes.txt'', ''run.sh'']
                              else if pat = ''docs/*'' then Inr [''docs/a'', ''docs/b'']
                              else Inr []),
      walk_calls = sample_walk,
      exec_du = (\<lambda>args. Inr sample_du),
      exec_dircolors = Inl ''executable file not found'',
      LS_COLORS = ''di=01;34:ex=01;32:*.txt=00;33:rs=0'',
      isTerminal = False\<rparr>"

text \<open>The records that \<open>newDuSlice\<close> reads from \<open>sample_du\<close>.\<close>

definition sample_records :: duSlice where
  "sample_records =
     [\<lparr>name = ''run.sh'', size' = 4096, childrenCount = 1\<rparr>,
      \<lparr>name = ''notes.txt'', size' = 1024, childrenCount = 1\<rparr>]"

text \<open>A report whose first size is the largest \<open>int\<close>, and its records.\<close>

definition big_du :: string where
  "big_du =
     ''9223372036854775807'' @ [CHR 0x09] @ ''run.sh'' @ [CHR 0x0A] @ ''1'' @ [CHR 0x09] @ ''notes.txt'' @ [CHR 0x0A]"

definition big_records :: duSlice where
  "big_records =
     [\<lparr>name = ''run.sh'', size' = 9223372036854775807, childrenCount = 1\<rparr>,
      \<lparr>name = ''notes.txt'', size' = 1, childrenCount = 1\<rparr>]"

text \<open>
  A report of thirteen entries, twelve of one size and a smaller one last, and its
  records.
\<close>

definition tied_du :: string where
  "tied_du =
     ''4096'' @ [CHR 0x09] @ ''a'' @ [CHR 0x0A] @ ''4096'' @ [CHR 0x09] @ ''b'' @ [CHR 0x0A]
     @ ''4096'' @ [CHR 0x09] @ ''c'' @ [CHR 0x0A] @ ''4096'' @ [CHR 0x09] @ ''d'' @ [CHR 0x0A]
     @ ''4096'' @ [CHR 0x09] @ ''e'' @ [CHR 0x0A] @ ''4096'' @ [CHR 0x09] @ ''f'' @ [CHR 0x0A]
     @ ''4096'' @ [CHR 0x09] @ ''g'' @ [CHR 0x0A] @ ''4096'' @ [CHR 0x09] @ ''h'' @ [CHR 0x0A]
     @ ''4096'' @ [CHR 0x09] @ ''i'' @ [CHR 0x0A] @ ''4096'' @ [CHR 0x09] @ ''j'' @ [CHR 0x0A]
     @ ''4096'' @ [CHR 0x09] @ ''k'' @ [CHR 0x0A] @ ''4096'' @ [CHR 0x09] @ ''l'' @ [CHR 0x0A]
     @ ''1024'' @ [CHR 0x09] @ ''m'' @ [CHR 0x0A]"

definition entry :: "string \<Rightarrow> go_int \<Rightarrow> duInfo" where
  "entry nm sz = \<lparr>name = nm, size' = sz, childrenCount = 0\<rparr>"

definition tied_records :: duSlice where
  "tied_records =
     [entry ''a'' 4096, entry ''b'' 4096, entry ''c'' 4096, entry ''d'' 4096,
      entry ''e'' 4096, entry ''f'' 4096, entry ''g'' 4096, entry ''h'' 4096,
      entry ''i'' 4096, entry ''j'' 4096, entry ''k'' 4096, entry ''l'' 4096,
      entry ''m'' 1024]"

text \<open>A record of negative size.\<close>

definition negative_record :: duInfo where
  "negative_record = \<lparr>name = ''x'', size' = - 5, childrenCount = 0\<rparr>"

text \<open>
  The library whose \<open>sort.Sort\<close> is the run modelled in \<open>go_Sort\<close>; of its result
  on a slice that \<open>go_Sort\<close> does not cover nothing is known.
\<close>

definition go_lib :: stdlib where
  "go_lib = sample_lib\<lparr>sort_Sort := (\<lambda>s. the (go_Sort s))\<rparr>"

section \<open>Auxiliary facts\<close>

subsection \<open>Machine integers\<close>

lemma sint_word_of_int_in_range:
  assumes "- (2 ^ 63) \<le> v" and "v < 2 ^ 63"
  shows "sint (word_of_int v :: 64 word) = v"
  using assms by (simp add: sint_sbintrunc' signed_take_bit_int_eq_self)

lemma uint_uint64: "uint (uint64 x) = sint x mod 2 ^ 64"
  by (simp add: uint64_def uint_sint take_bit_eq_mod)

lemma uint64_eq: "uint64 x = word_of_int (sint x mod 2 ^ 64)"
  using word_of_int_uint [of "uint64 x"] by (simp only: uint_uint64)

lemma uint_uint64_negative:
  assumes "sint x < 0"
  shows "uint (uint64 x) = sint x + 2 ^ 64"
proof -
  have "- (2 ^ 63) \<le> sint x"
    using sint_ge [of x] by simp
  with assms have "(sint x + 2 ^ 64) mod 2 ^ 64 = sint x + 2 ^ 64"
    by (intro mod_pos_pos_trivial) simp_all
  then have "sint x mod 2 ^ 64 = sint x + 2 ^ 64"
    by simp
  then show ?thesis
    by (simp add: uint_uint64)
qed

subsection \<open>The total and the sort\<close>

lemma total_from_sum: "total_from t s = t + sum_list (map size' s)"
  by (induction s arbitrary: t) (simp_all add: add.assoc)

lemma total_word: "total s = word_of_int (\<Sum>x\<leftarrow>s. sint (size' x))"
  unfolding total_def total_from_sum
  by (induction s) simp_all

lemma total_perm: "mset s' = mset s \<Longrightarrow> total s' = total s"
  unfolding total_word
  by (metis mset_map sum_mset_sum_list)

lemma sample_lib_sorts: "sorts s (sort_Sort sample_lib s)"
proof -
  have "sorted (map (\<lambda>x. sint (size' x)) (sort_key (\<lambda>x. sint (size' x)) s))"
    by (rule sorted_sort_key)
  then have "sorted_wrt (\<lambda>x y. \<not> Less y x) (sort_key (\<lambda>x. sint (size' x)) s)"
    by (simp add: sorted_map Less_def not_less)
  then show ?thesis
    by (simp add: sorts_def sample_lib_def)
qed

subsection \<open>The walk\<close>

lemma Walk_walk:
  "snd (filepath_Walk cs walk n) = n + of_nat (length (takeWhile visited cs))"
  by (induction cs arbitrary: n) (simp_all add: walk_def visited_def split: walk_call.splits)

subsection \<open>The parser\<close>

lemma parse_line_Atoi_error:
  assumes "Atoi (hd (SplitN2 (CHR 0x09) line)) = Inl err"
  shows "parse_line wc line = Some (Inl (UnexpectedFormat line err))"
  using assms by (simp add: parse_line_def SplitN2_def index_def split: if_splits)

lemma sample_du_records: "newDuSlice sample_walk sample_du = Some (Inr sample_records)"
  by (simp add: newDuSlice_def sample_du_def parse_line_def SplitN2_def index_def Atoi_def
      is_digit_def digits_val_def count'_def sample_walk_def walk_def sample_records_def)

subsection \<open>The classifier and the color database\<close>

lemma mode_bits:
  "ModeDir = (0x80000000 :: 32 word)" "ModeSymlink = (0x8000000 :: 32 word)"
  "ModeDevice = (0x4000000 :: 32 word)" "ModeNamedPipe = (0x2000000 :: 32 word)"
  "ModeSocket = (0x1000000 :: 32 word)" "ModeSetuid = (0x800000 :: 32 word)"
  "ModeSetgid = (0x400000 :: 32 word)" "ModeCharDevice = (0x200000 :: 32 word)"
  by (simp_all add: ModeDir_def ModeSymlink_def ModeDevice_def ModeNamedPipe_def ModeSocket_def
      ModeSetuid_def ModeSetgid_def ModeCharDevice_def)

lemma ext_scan_dot: "ext_scan cs seen = [] \<or> hd (ext_scan cs seen) = CHR ''.''"
  by (induction cs arbitrary: seen) simp_all

lemma Ext_dot: "Ext p = [] \<or> hd (Ext p) = CHR ''.''"
  by (simp add: Ext_def ext_scan_dot)

text \<open>
  Where \<open>Lstat\<close> succeeds and the link count can be read, \<open>Key\<close> returns the code of
  the first rule of the priority order that holds, provided that, for a link,
  \<open>os.Readlink\<close> fails exactly when the target does not resolve.
\<close>

lemma Key_LstatOk:
  assumes "os_Lstat e p = LstatOk info" and "nlink info = Some n"
    and "symlink (metadata_of e p info n) \<longrightarrow>
           target_resolves (metadata_of e p info n) = (\<not> Readlink_fails e p)"
  shows "Key e p = Inr (category_code (metadata_of e p info n))"
  using assms
  by (auto simp add: Key_def category_code_def priority_order_def metadata_of_def
      Dir_def Orphan_def Link_def NamedPipe_def Socket_def CharDevice_def BlockDevice_def
      Setuid_def Setgid_def Executable_def MultiHardlink_def Reset_def
      word_less_nat_alt)

lemma Key_sample_unsupported: "Key (sample_env False) ''notes.txt'' = Inl UnsupportedSystem"
  by (simp add: Key_def sample_env_def sample_lstat_def mode_bits exec_bits_def)

lemma add_pair_apply:
  "add_pair m pair k =
     (if stored_by k pair then Some (tl (dropWhile (\<lambda>c. c \<noteq> CHR ''='') pair)) else m k)"
  by (simp add: add_pair_def SplitN2_def stored_by_def)

lemma foldl_add_pair:
  "foldl add_pair m ps k =
     (case find (stored_by k) (rev ps) of
        None \<Rightarrow> m k
      | Some pair \<Rightarrow> Some (tl (dropWhile (\<lambda>c. c \<noteq> CHR ''='') pair)))"
  by (induction ps rule: rev_induct) (simp_all add: add_pair_apply)

subsection \<open>The renderer\<close>

lemma replicate_numeral: "replicate (numeral k) x = x # replicate (pred_numeral k) x"
  by (simp add: numeral_eq_Suc)

lemma write_records_shape:
  assumes "write_records e l colorize s st = Some (out, tty)"
  shows "\<exists>nms. length nms = length s \<and>
     out = fst st @ concat (map2 (\<lambda>i nm. report_line
                 (humanize_IBytes l (word_of_int (sint (size' i) mod 2 ^ 64)))
                 (formatCount (childrenCount i)) nm) s nms)"
  using assms
proof (induction s arbitrary: st)
  case Nil
  then show ?case by simp
next
  case (Cons info s)
  from Cons.prems obtain nm tty1 where
    rest: "write_records e l colorize s
            (fst st @ report_line (humanize_IBytes l (uint64 (size' info)))
                        (formatCount (childrenCount info)) nm, tty1)
          = Some (out, tty)"
    by (auto simp add: Let_def split: option.splits)
  from Cons.IH [OF rest] obtain nms where
    n: "length nms = length s" and
    o: "out = (fst st @ report_line (humanize_IBytes l (uint64 (size' info)))
                          (formatCount (childrenCount info)) nm)
         @ concat (map2 (\<lambda>i nm. report_line
                 (humanize_IBytes l (word_of_int (sint (size' i) mod 2 ^ 64)))
                 (formatCount (childrenCount i)) nm) s nms)"
    by auto
  show ?case
    by (rule exI [of _ "nm # nms"]) (simp add: n o uint64_eq)
qed

lemma write_records_plain:
  "write_records e l False s st =
     Some (fst st @ concat (map (\<lambda>i. report_line
                 (humanize_IBytes l (word_of_int (sint (size' i) mod 2 ^ 64)))
                 (formatCount (childrenCount i)) (name i)) s), snd st)"
  by (induction s arbitrary: st) (simp_all add: uint64_eq)

section \<open>The claims\<close>

subsection \<open>C1: the record \<open>total\<close>\<close>

text \<open>
  C1, as the program has it. Whenever \<open>sort.Sort\<close> keeps its promise on the parsed
  records \<open>s\<close>, what \<open>main\<close> renders is the sorted records followed by one more
  record: the sort has run on the parsed records alone, the added record is named
  \<open>total\<close>, and its size is the sum of the sizes of the parsed records reduced to a
  64-bit \<open>int\<close>. It is the exact sum whenever the exact sum is itself an \<open>int\<close>.
\<close>

theorem total_record_last:
  assumes "sorts s (sort_Sort l s)"
  shows "butlast (with_total l s) = sort_Sort l s
    \<and> name (last (with_total l s)) = ''total''
    \<and> size' (last (with_total l s)) = word_of_int (\<Sum>x\<leftarrow>s. sint (size' x))
    \<and> (- (2 ^ 63) \<le> (\<Sum>x\<leftarrow>s. sint (size' x)) \<and> (\<Sum>x\<leftarrow>s. sint (size' x)) < 2 ^ 63
        \<longrightarrow> sint (size' (last (with_total l s))) = (\<Sum>x\<leftarrow>s. sint (size' x)))"
proof -
  have "mset (sort_Sort l s) = mset s"
    using assms by (simp add: sorts_def)
  then have "total (sort_Sort l s) = word_of_int (\<Sum>x\<leftarrow>s. sint (size' x))"
    using total_perm [of "sort_Sort l s" s] by (simp add: total_word)
  then show ?thesis
    by (simp add: with_total_def Let_def sint_word_of_int_in_range)
qed

text \<open>The report \<open>sample_du\<close>: its two sizes add up to 5120.\<close>

theorem total_record_last_witness:
  "sorts sample_records (sort_Sort sample_lib sample_records)
   \<and> newDuSlice sample_walk sample_du = Some (Inr sample_records)
   \<and> butlast (with_total sample_lib sample_records) = sort_Sort sample_lib sample_records
   \<and> name (last (with_total sample_lib sample_records)) = ''total''
   \<and> sint (size' (last (with_total sample_lib sample_records))) = 5120"
proof -
  have h: "sorts sample_records (sort_Sort sample_lib sample_records)"
    by (rule sample_lib_sorts)
  have sum: "(\<Sum>x\<leftarrow>sample_records. sint (size' x)) = 5120"
    by (simp add: sample_records_def)
  from total_record_last [OF h] sum h sample_du_records show ?thesis
    by simp
qed

text \<open>
  C1 as stated fails where the sum overflows. The report \<open>big_du\<close> parses; its sizes
  are \<open>2^63 - 1\<close> and \<open>1\<close>, whose sum is \<open>2^63\<close>, and the size of the record
  \<open>total\<close> is \<open>- 2^63\<close>.
\<close>

theorem total_overflow:
  "newDuSlice sample_walk big_du = Some (Inr big_records)
   \<and> sorts big_records (sort_Sort sample_lib big_records)
   \<and> sint (size' (last (with_total sample_lib big_records))) = - 9223372036854775808
   \<and> sint (size' (hd big_records)) + sint (size' (last big_records)) = 9223372036854775808"
proof -
  have a: "newDuSlice sample_walk big_du = Some (Inr big_records)"
    by (simp add: newDuSlice_def big_du_def parse_line_def SplitN2_def index_def Atoi_def
      is_digit_def digits_val_def count'_def sample_walk_def walk_def big_records_def)
  have b: "sint (size' (last (with_total sample_lib big_records))) = - 9223372036854775808"
    by (simp add: with_total_def Let_def total_word big_records_def sample_lib_def)
  have c: "sint (size' (hd big_records)) + sint (size' (last big_records)) = 9223372036854775808"
    by (simp add: big_records_def)
  from a b c sample_lib_sorts show ?thesis by simp
qed

subsection \<open>C2: the order of the records\<close>

text \<open>
  C2, as the program has it. Whenever \<open>sort.Sort\<close> keeps its promise on the parsed
  records \<open>s\<close>, the rendered records before \<open>total\<close> are the parsed records,
  rearranged, in ascending order of size: for \<open>i < j\<close> the size at \<open>i\<close> is at most the
  size at \<open>j\<close>. Nothing is said of the order of two records of equal size.
\<close>

theorem rendered_ascending:
  assumes "sorts s (sort_Sort l s)"
  shows "(\<forall>i j. i < j \<and> j < length s \<longrightarrow>
            sint (size' (with_total l s ! i)) \<le> sint (size' (with_total l s ! j)))
    \<and> mset (butlast (with_total l s)) = mset s"
proof -
  let ?s1 = "sort_Sort l s"
  have m: "mset ?s1 = mset s" and srt: "sorted_wrt (\<lambda>x y. \<not> Less y x) ?s1"
    using assms by (simp_all add: sorts_def)
  have len: "length ?s1 = length s"
    using m by (metis size_mset)
  have "sint (size' (with_total l s ! i)) \<le> sint (size' (with_total l s ! j))"
    if "i < j" "j < length s" for i j
  proof -
    have "\<not> Less (?s1 ! j) (?s1 ! i)"
      using srt that len by (simp add: sorted_wrt_iff_nth_less)
    then show ?thesis
      using that len by (simp add: with_total_def Let_def nth_append Less_def)
  qed
  then show ?thesis
    using m by (simp add: with_total_def Let_def)
qed

theorem rendered_ascending_witness:
  "sorts sample_records (sort_Sort sample_lib sample_records)
   \<and> with_total sample_lib sample_records =
       [\<lparr>name = ''notes.txt'', size' = 1024, childrenCount = 1\<rparr>,
        \<lparr>name = ''run.sh'', size' = 4096, childrenCount = 1\<rparr>,
        \<lparr>name = ''total'', size' = 5120, childrenCount = 0\<rparr>]
   \<and> sint (size' (with_total sample_lib sample_records ! 0))
       \<le> sint (size' (with_total sample_lib sample_records ! 1))
   \<and> mset (butlast (with_total sample_lib sample_records)) = mset sample_records"
proof -
  have h: "sorts sample_records (sort_Sort sample_lib sample_records)"
    by (rule sample_lib_sorts)
  have w: "with_total sample_lib sample_records =
       [\<lparr>name = ''notes.txt'', size' = 1024, childrenCount = 1\<rparr>,
        \<lparr>name = ''run.sh'', size' = 4096, childrenCount = 1\<rparr>,
        \<lparr>name = ''total'', size' = 5120, childrenCount = 0\<rparr>]"
    by (simp add: with_total_def Let_def sample_lib_def sample_records_def total_def)
  have len: "(0::nat) < 1 \<and> 1 < length sample_records"
    by (simp add: sample_records_def)
  from rendered_ascending [OF h] len
  have "sint (size' (with_total sample_lib sample_records ! 0))
       \<le> sint (size' (with_total sample_lib sample_records ! 1))
     \<and> mset (butlast (with_total sample_lib sample_records)) = mset sample_records"
    by blast
  with h w show ?thesis by blast
qed

text \<open>
  C2 as stated fails for the order of equal sizes. The report \<open>tied_du\<close> lists
  \<open>a\<close> to \<open>l\<close>, all of 4096 bytes, and then \<open>m\<close> of 1024. \<open>sort.Sort\<close> finds
  the slice unsorted, takes \<open>g\<close> (index 6) as pivot and partitions: \<open>g\<close> and \<open>a\<close>
  change places, then \<open>b\<close> and \<open>m\<close>, then \<open>m\<close> and \<open>g\<close>. What is rendered has
  \<open>g\<close> before \<open>a\<close> and \<open>b\<close> last, though \<open>a\<close> and \<open>b\<close> are first in the
  report and all three are of one size.
\<close>

theorem equal_sizes_reordered:
  "newDuSlice sample_walk tied_du = Some (Inr tied_records)
   \<and> map name tied_records =
       [''a'', ''b'', ''c'', ''d'', ''e'', ''f'', ''g'', ''h'', ''i'', ''j'', ''k'', ''l'', ''m'']
   \<and> go_Sort tied_records =
       Some [entry ''m'' 1024, entry ''g'' 4096, entry ''c'' 4096, entry ''d'' 4096,
             entry ''e'' 4096, entry ''f'' 4096, entry ''a'' 4096, entry ''h'' 4096,
             entry ''i'' 4096, entry ''j'' 4096, entry ''k'' 4096, entry ''l'' 4096,
             entry ''b'' 4096]
   \<and> sorts tied_records (sort_Sort go_lib tied_records)
   \<and> map name (with_total go_lib tied_records) =
       [''m'', ''g'', ''c'', ''d'', ''e'', ''f'', ''a'', ''h'', ''i'', ''j'', ''k'', ''l'', ''b'',
        ''total'']
   \<and> size' (tied_records ! 0) = size' (tied_records ! 6)"
proof -
  have p: "newDuSlice sample_walk tied_du = Some (Inr tied_records)"
    by code_simp
  have n: "map name tied_records =
       [''a'', ''b'', ''c'', ''d'', ''e'', ''f'', ''g'', ''h'', ''i'', ''j'', ''k'', ''l'', ''m'']"
    by (simp add: tied_records_def entry_def)
  have g: "go_Sort tied_records =
       Some [entry ''m'' 1024, entry ''g'' 4096, entry ''c'' 4096, entry ''d'' 4096,
             entry ''e'' 4096, entry ''f'' 4096, entry ''a'' 4096, entry ''h'' 4096,
             entry ''i'' 4096, entry ''j'' 4096, entry ''k'' 4096, entry ''l'' 4096,
             entry ''b'' 4096]"
    by code_simp
  have s: "sorts tied_records (sort_Sort go_lib tied_records)"
    by code_simp
  have w: "map name (with_total go_lib tied_records) =
       [''m'', ''g'', ''c'', ''d'', ''e'', ''f'', ''a'', ''h'', ''i'', ''j'', ''k'', ''l'', ''b'',
        ''total'']"
    by (simp add: with_total_def Let_def go_lib_def g entry_def)
  have e: "size' (tied_records ! 0) = size' (tied_records ! 6)"
    by (simp add: tied_records_def entry_def)
  from p n g s w e show ?thesis by blast
qed

subsection \<open>C3: malformed lines\<close>

text \<open>
  C3 fails for a line that holds a number and no tab: \<open>strings.SplitN\<close> yields one
  field, \<open>Atoi\<close> accepts it, and \<open>items[1]\<close> is out of range. On the report
  \<open>123\<close> \<open>newDuSlice\<close> panics; it returns no error.
\<close>

theorem line_without_tab_panics:
  "newDuSlice wc (''123'' @ [CHR 0x0A]) = None"
  by (simp add: newDuSlice_def parse_line_def SplitN2_def index_def Atoi_def is_digit_def
      digits_val_def)

subsection \<open>C4: the priority order of the classifier\<close>

text \<open>
  C4 fails for a link whose target is gone. \<open>Key\<close> asks \<open>os.Readlink\<close>, which reads
  the text of the link and succeeds whether or not the target exists: for \<open>stale\<close>
  the answer is \<open>ln\<close>, where the priority order, for a link whose target does not
  resolve, gives \<open>or\<close>. It fails too for \<open>notes.txt/x\<close>, a path that does not
  exist: \<open>Lstat\<close> reports \<open>ENOTDIR\<close>, which \<open>os.IsNotExist\<close> does not count, and
  \<open>Key\<close> returns the error and no code.
\<close>

theorem dangling_link_is_ln:
  "os_Lstat (sample_env True) ''stale'' = LstatOk \<lparr>mode = ModeSymlink OR 0x1FF, nlink = Some 1\<rparr>
   \<and> os_Stat (sample_env True) ''stale'' = StatErr ''no such file or directory''
   \<and> Readlink_fails (sample_env True) ''stale'' = False
   \<and> Key (sample_env True) ''stale'' = Inr ''ln''
   \<and> category_code (metadata_of (sample_env True) ''stale''
        \<lparr>mode = ModeSymlink OR 0x1FF, nlink = Some 1\<rparr> 1) = ''or''
   \<and> os_Lstat (sample_env True) ''notes.txt/x'' = LstatErr ''not a directory''
   \<and> Key (sample_env True) ''notes.txt/x'' = Inl (LstatFailed ''not a directory'')"
  by (simp add: Key_def sample_env_def sample_lstat_def mode_bits Link_def
      category_code_def priority_order_def metadata_of_def)

subsection \<open>C5: a platform without link counts\<close>

text \<open>
  C5, as the program has it. An error of \<open>Key\<close> is not fatal: \<open>ForTTY\<close> returns the
  path as it is, without color, whether the color database is already built or is built
  by this call. \<open>Key\<close> fails with \<open>unsupported system\<close> exactly for an entry whose
  \<open>Lstat\<close> succeeds, that is no directory, link, pipe, socket or device, has no setuid,
  setgid or execute bit, and whose link count cannot be read.
\<close>

theorem Key_error_not_fatal:
  "(Key e p = Inl err \<longrightarrow> ForTTY e (Some m) p = Some (p, Some m))
   \<and> (Key e p = Inl err \<and> parseDircolors e = Some m \<longrightarrow> ForTTY e None p = Some (p, Some m))
   \<and> (Key e p = Inl UnsupportedSystem \<longleftrightarrow>
        (\<exists>info. os_Lstat e p = LstatOk info \<and> nlink info = None
           \<and> mode info AND ModeDir = 0 \<and> mode info AND ModeSymlink = 0
           \<and> mode info AND ModeNamedPipe = 0 \<and> mode info AND ModeSocket = 0
           \<and> mode info AND ModeDevice = 0 \<and> mode info AND ModeSetuid = 0
           \<and> mode info AND ModeSetgid = 0 \<and> mode info AND exec_bits = 0))"
proof -
  have a: "Key e p = Inl err \<longrightarrow> ForTTY e (Some m) p = Some (p, Some m)"
    by (simp add: ForTTY_def)
  have b: "Key e p = Inl err \<and> parseDircolors e = Some m \<longrightarrow> ForTTY e None p = Some (p, Some m)"
    by (simp add: ForTTY_def)
  have c: "Key e p = Inl UnsupportedSystem \<longleftrightarrow>
        (\<exists>info. os_Lstat e p = LstatOk info \<and> nlink info = None
           \<and> mode info AND ModeDir = 0 \<and> mode info AND ModeSymlink = 0
           \<and> mode info AND ModeNamedPipe = 0 \<and> mode info AND ModeSocket = 0
           \<and> mode info AND ModeDevice = 0 \<and> mode info AND ModeSetuid = 0
           \<and> mode info AND ModeSetgid = 0 \<and> mode info AND exec_bits = 0)"
    by (auto simp add: Key_def split: lstat_result.splits option.splits if_splits)
  from a b c show ?thesis by blast
qed

theorem Key_error_not_fatal_witness:
  "Key (sample_env False) ''notes.txt'' = Inl UnsupportedSystem
   \<and> parseDircolors (sample_env False) = Some (parse_pairs ''di=01;34:ex=01;32:*.txt=00;33:rs=0'')
   \<and> ForTTY (sample_env False) None ''notes.txt''
       = Some (''notes.txt'', Some (parse_pairs ''di=01;34:ex=01;32:*.txt=00;33:rs=0''))
   \<and> ForTTY (sample_env False) (Some Map.empty) ''notes.txt'' = Some (''notes.txt'', Some Map.empty)"
proof -
  let ?e = "sample_env False"
  let ?m = "parse_pairs ''di=01;34:ex=01;32:*.txt=00;33:rs=0''"
  have k: "Key ?e ''notes.txt'' = Inl UnsupportedSystem"
    by (rule Key_sample_unsupported)
  have d: "parseDircolors ?e = Some ?m"
    by (simp add: parseDircolors_def sample_env_def)
  have f1: "ForTTY ?e None ''notes.txt'' = Some (''notes.txt'', Some ?m)"
    using Key_error_not_fatal [of ?e "''notes.txt''" UnsupportedSystem ?m] k d by blast
  have f2: "ForTTY ?e (Some Map.empty) ''notes.txt'' = Some (''notes.txt'', Some Map.empty)"
    using Key_error_not_fatal [of ?e "''notes.txt''" UnsupportedSystem Map.empty] k by blast
  from k d f1 f2 show ?thesis by blast
qed

text \<open>
  C5 as stated fails: on the platform without link counts \<open>Key\<close> fails for
  \<open>notes.txt\<close>, and \<open>dufmt --color=always run.sh notes.txt\<close> prints its whole report,
  with \<open>notes.txt\<close> not colored.
\<close>

theorem unsupported_system_still_prints:
  "Key (sample_env False) ''notes.txt'' = Inl UnsupportedSystem
   \<and> main (sample_env False) sample_lib ''always'' [''run.sh'', ''notes.txt'']
       = Printed (''      1024 B           notes.txt'' @ [CHR 0x0A]
            @ ''      4096 B           '' @ [CHR 0x1B] @ ''[01;32mrun.sh'' @ [CHR 0x1B] @ ''[0m'' @ [CHR 0x0A]
            @ ''      5120 B           total'' @ [CHR 0x0A])"
proof -
  let ?e = "sample_env False"
  have p: "paths ?e sample_lib [''run.sh'', ''notes.txt''] = Inr [''run.sh'', ''notes.txt'']"
    by (simp add: paths_def)
  have du: "execDu ?e [''run.sh'', ''notes.txt''] = Inr sample_du"
    by (simp add: execDu_def sample_env_def)
  have wc: "walk_calls ?e = sample_walk"
    by (simp add: sample_env_def)
  have wt: "with_total sample_lib sample_records =
       [\<lparr>name = ''notes.txt'', size' = 1024, childrenCount = 1\<rparr>,
        \<lparr>name = ''run.sh'', size' = 4096, childrenCount = 1\<rparr>,
        \<lparr>name = ''total'', size' = 5120, childrenCount = 0\<rparr>]"
    by (simp add: with_total_def Let_def sample_lib_def sample_records_def total_def)
  have d: "parseDircolors ?e = Some (parse_pairs ''di=01;34:ex=01;32:*.txt=00;33:rs=0'')"
    by (simp add: parseDircolors_def sample_env_def)
  have k2: "Key ?e ''run.sh'' = Inr ''ex''"
    by (simp add: Key_def sample_env_def sample_lstat_def mode_bits exec_bits_def Executable_def)
  have k3: "Key ?e ''total'' = Inr ''or''"
    by (simp add: Key_def sample_env_def sample_lstat_def Orphan_def)
  have l1: "lookup (parse_pairs ''di=01;34:ex=01;32:*.txt=00;33:rs=0'') ''ex'' = ''01;32''"
    by (simp add: lookup_def parse_pairs_def add_pair_def SplitN2_def)
  have l2: "lookup (parse_pairs ''di=01;34:ex=01;32:*.txt=00;33:rs=0'') ''or'' = []"
    by (simp add: lookup_def parse_pairs_def add_pair_def SplitN2_def)
  have f1: "ForTTY ?e None ''notes.txt''
      = Some (''notes.txt'', Some (parse_pairs ''di=01;34:ex=01;32:*.txt=00;33:rs=0''))"
    by (simp add: ForTTY_def d Key_sample_unsupported)
  have f2: "ForTTY ?e (Some (parse_pairs ''di=01;34:ex=01;32:*.txt=00;33:rs=0'')) ''run.sh''
      = Some ([CHR 0x1B] @ ''[01;32mrun.sh'' @ [CHR 0x1B] @ ''[0m'',
              Some (parse_pairs ''di=01;34:ex=01;32:*.txt=00;33:rs=0''))"
    by (simp add: ForTTY_def k2 l1)
  have f3: "ForTTY ?e (Some (parse_pairs ''di=01;34:ex=01;32:*.txt=00;33:rs=0'')) ''total''
      = Some (''total'', Some (parse_pairs ''di=01;34:ex=01;32:*.txt=00;33:rs=0''))"
    by (simp add: ForTTY_def k3 l2)
  have h: "humanize_IBytes sample_lib (uint64 1024) = ''1024 B''"
    "humanize_IBytes sample_lib (uint64 4096) = ''4096 B''"
    "humanize_IBytes sample_lib (uint64 5120) = ''5120 B''"
    by (simp_all add: sample_lib_def uint64_def decimal.simps)
  have c: "formatCount 1 = ''         ''" "formatCount 0 = ''         ''"
    by (simp_all add: formatCount_def)
  have w: "WriteAll ?e sample_lib ''always'' (with_total sample_lib sample_records) ([], None)
      = Some (''      1024 B           notes.txt'' @ [CHR 0x0A]
            @ ''      4096 B           '' @ [CHR 0x1B] @ ''[01;32mrun.sh'' @ [CHR 0x1B] @ ''[0m'' @ [CHR 0x0A]
            @ ''      5120 B           total'' @ [CHR 0x0A],
          Some (parse_pairs ''di=01;34:ex=01;32:*.txt=00;33:rs=0''))"
    by (simp add: WriteAll_def wt f1 f2 f3 h c report_line_def pad_left_def replicate_numeral)
  show ?thesis
    by (simp add: main_def p du wc sample_du_records w Key_sample_unsupported)
qed

subsection \<open>C6: the pairs of the color specification\<close>

text \<open>
  C6, as the program has it. A pair is stored exactly when it holds at least one \<open>=\<close>:
  its key is the text before the first \<open>=\<close> and its value all the text after it,
  further \<open>=\<close> included; a pair with no \<open>=\<close> is skipped. The value found under a key
  is that of the last pair of the specification that sets it, and there is none when no
  pair does. When \<open>LS_COLORS\<close> is set, the database is built from it in this way.
\<close>

theorem parse_pairs_lookup:
  "parse_pairs s k =
     (case find (stored_by k) (rev (Split (CHR '':'') s)) of
        None \<Rightarrow> None
      | Some pair \<Rightarrow> Some (tl (dropWhile (\<lambda>c. c \<noteq> CHR ''='') pair)))
   \<and> (LS_COLORS e \<noteq> [] \<longrightarrow> parseDircolors e = Some (parse_pairs (LS_COLORS e)))"
  by (simp add: parse_pairs_def foldl_add_pair parseDircolors_def)

theorem parse_pairs_lookup_witness:
  "LS_COLORS (sample_env True) = ''di=01;34:ex=01;32:*.txt=00;33:rs=0''
   \<and> parseDircolors (sample_env True) = Some (parse_pairs ''di=01;34:ex=01;32:*.txt=00;33:rs=0'')
   \<and> parse_pairs ''di=01;34:ex=01;32:*.txt=00;33:rs=0'' ''ex'' = Some ''01;32''
   \<and> parse_pairs ''di=01;34:ex:rs=0'' ''ex'' = None"
proof -
  let ?e = "sample_env True"
  have c: "LS_COLORS ?e = ''di=01;34:ex=01;32:*.txt=00;33:rs=0''"
    by (simp add: sample_env_def)
  then have ne: "LS_COLORS ?e \<noteq> []"
    by simp
  have d: "parseDircolors ?e = Some (parse_pairs ''di=01;34:ex=01;32:*.txt=00;33:rs=0'')"
    using parse_pairs_lookup [of _ _ ?e] ne c by simp
  have l1: "parse_pairs ''di=01;34:ex=01;32:*.txt=00;33:rs=0'' ''ex'' = Some ''01;32''"
    using parse_pairs_lookup [of "''di=01;34:ex=01;32:*.txt=00;33:rs=0''" "''ex''" ?e]
    by (simp add: stored_by_def)
  have l2: "parse_pairs ''di=01;34:ex:rs=0'' ''ex'' = None"
    using parse_pairs_lookup [of "''di=01;34:ex:rs=0''" "''ex''" ?e]
    by (simp add: stored_by_def)
  from c d l1 l2 show ?thesis by blast
qed

text \<open>
  C6 as stated fails: the pair \<open>a=b=c\<close> holds two \<open>=\<close> and is stored, under the key
  \<open>a\<close> with the value \<open>b=c\<close>.
\<close>

theorem second_equals_kept:
  "parse_pairs ''a=b=c'' ''a'' = Some ''b=c''
   \<and> map_option (\<lambda>m. m ''a'') (parseDircolors ((sample_env True)\<lparr>LS_COLORS := ''a=b=c''\<rparr>))
       = Some (Some ''b=c'')"
  by (simp add: parseDircolors_def parse_pairs_def add_pair_def SplitN2_def)

subsection \<open>C7: counting under an error\<close>

text \<open>
  C7, as the program has it. \<open>count\<close> never fails: it returns the number of entries
  the walk visited before its first error, and drops the error. The walk stops at that
  error, so entries that could be visited after it are not counted; when the first call
  already carries an error the result is 0.
\<close>

theorem count_stops_at_first_error:
  "count' wc p = of_nat (length (takeWhile visited (wc p)))
   \<and> count' (\<lambda>q. Fail path err # rest) p = 0"
  unfolding count'_def Walk_walk by (simp add: visited_def)

text \<open>
  C7 as stated fails: under \<open>docs\<close> the walk reaches \<open>docs\<close>, fails on \<open>docs/a\<close>
  and could still visit \<open>docs/b\<close>; two entries can be visited and the count is 1.
\<close>

theorem walk_error_ends_count:
  "sample_walk ''docs'' = [Visit ''docs'', Fail ''docs/a'' ''permission denied'', Visit ''docs/b'']
   \<and> count' sample_walk ''docs'' = 1
   \<and> length (filter visited (sample_walk ''docs'')) = 2"
  by (simp add: count'_def sample_walk_def walk_def visited_def)

subsection \<open>C8: the sign of a size\<close>

text \<open>
  C8 fails for a size with a minus sign: \<open>strconv.Atoi\<close> accepts it. The line
  \<open>-5<TAB>/x\<close> is parsed into a record of size \<open>-5\<close>.
\<close>

theorem negative_size_accepted:
  "newDuSlice wc (''-5'' @ [CHR 0x09] @ ''/x'' @ [CHR 0x0A]) =
     Some (Inr [\<lparr>name = ''/x'', size' = - 5, childrenCount = count' wc ''/x''\<rparr>])
   \<and> sint (- 5 :: go_int) = - 5"
  by (simp add: newDuSlice_def parse_line_def SplitN2_def index_def Atoi_def is_digit_def
      digits_val_def)

subsection \<open>C9: the path arguments\<close>

text \<open>
  C9, as the program has it. With no argument the entries of the current directory are
  globbed; with one argument that \<open>os.Stat\<close> reports as a directory, the entries of
  that directory; one argument that is no directory is passed on as it is; one argument
  that \<open>os.Stat\<close> fails on (a path that does not exist, for one) makes \<open>paths\<close> return
  the error and \<open>main\<close> exit with \<open>Bad args\<close>; two or more arguments are passed on as
  they are.
\<close>

theorem paths_cases:
  "(args = [] \<longrightarrow> paths e l args = filepath_Glob e ''*'')
   \<and> (args = [a] \<and> os_Stat e a = StatOk True
        \<longrightarrow> paths e l args = filepath_Glob e (filepath_Join l a ''*''))
   \<and> (args = [a] \<and> os_Stat e a = StatOk False \<longrightarrow> paths e l args = Inr args)
   \<and> (args = [a] \<and> os_Stat e a = StatErr err
        \<longrightarrow> paths e l args = Inl err \<and> main e l color args = Exit (BadArgs err))
   \<and> (2 \<le> length args \<longrightarrow> paths e l args = Inr args)"
  by (auto simp add: paths_def main_def)

theorem paths_cases_witness:
  "paths (sample_env True) sample_lib [] = Inr [''docs'', ''notes.txt'', ''run.sh'']
   \<and> os_Stat (sample_env True) ''docs'' = StatOk True
   \<and> paths (sample_env True) sample_lib [''docs''] = Inr [''docs/a'', ''docs/b'']
   \<and> os_Stat (sample_env True) ''notes.txt'' = StatOk False
   \<and> paths (sample_env True) sample_lib [''notes.txt''] = Inr [''notes.txt'']
   \<and> os_Stat (sample_env True) ''gone'' = StatErr ''no such file or directory''
   \<and> paths (sample_env True) sample_lib [''gone''] = Inl ''no such file or directory''
   \<and> main (sample_env True) sample_lib ''never'' [''gone'']
       = Exit (BadArgs ''no such file or directory'')
   \<and> paths (sample_env True) sample_lib [''gone'', ''notes.txt''] = Inr [''gone'', ''notes.txt'']"
proof -
  let ?e = "sample_env True"
  have s1: "os_Stat ?e ''docs'' = StatOk True"
    and s2: "os_Stat ?e ''notes.txt'' = StatOk False"
    and s3: "os_Stat ?e ''gone'' = StatErr ''no such file or directory''"
    by (simp_all add: sample_env_def)
  have g1: "filepath_Glob ?e ''*'' = Inr [''docs'', ''notes.txt'', ''run.sh'']"
    and g2: "filepath_Glob ?e (filepath_Join sample_lib ''docs'' ''*'') = Inr [''docs/a'', ''docs/b'']"
    by (simp_all add: sample_env_def sample_lib_def)
  have p0: "paths ?e sample_lib [] = Inr [''docs'', ''notes.txt'', ''run.sh'']"
    using paths_cases [of "[]" ?e sample_lib] g1 by simp
  have p1: "paths ?e sample_lib [''docs''] = Inr [''docs/a'', ''docs/b'']"
    using paths_cases [of "[''docs'']" ?e sample_lib "''docs''"] s1 g2 by simp
  have p2: "paths ?e sample_lib [''notes.txt''] = Inr [''notes.txt'']"
    using paths_cases [of "[''notes.txt'']" ?e sample_lib "''notes.txt''"] s2 by simp
  have p3: "paths ?e sample_lib [''gone''] = Inl ''no such file or directory''
      \<and> main ?e sample_lib ''never'' [''gone''] = Exit (BadArgs ''no such file or directory'')"
    using paths_cases [of "[''gone'']" ?e sample_lib "''gone''" "''no such file or directory''" "''never''"] s3
    by simp
  have p4: "paths ?e sample_lib [''gone'', ''notes.txt''] = Inr [''gone'', ''notes.txt'']"
    using paths_cases [of "[''gone'', ''notes.txt'']" ?e sample_lib] by simp
  from s1 s2 s3 p0 p1 p2 p3 p4 show ?thesis by blast
qed

text \<open>
  C9 as stated fails: the single argument \<open>missing\<close> does not exist, and the run ends
  in \<open>Bad args\<close>.
\<close>

theorem missing_argument_fatal:
  "os_Stat (sample_env True) ''missing'' = StatErr ''no such file or directory''
   \<and> paths (sample_env True) sample_lib [''missing''] = Inl ''no such file or directory''
   \<and> main (sample_env True) sample_lib ''auto'' [''missing'']
       = Exit (BadArgs ''no such file or directory'')"
  by (simp add: paths_def main_def sample_env_def)

subsection \<open>C10: a negative size in the report\<close>

text \<open>
  C10. Every line that \<open>WriteAll\<close> writes starts with \<open>humanize.IBytes\<close> of the
  record's signed size taken modulo \<open>2^64\<close> (with names as they are when the color mode
  is \<open>never\<close>); nothing else is done for a negative size. That unsigned value is the
  signed one modulo \<open>2^64\<close>, which for a negative size is the size plus \<open>2^64\<close>, at
  least \<open>2^63\<close>.
\<close>

theorem WriteAll_unsigned_size:
  "(WriteAll e l color s st = Some (out, tty) \<longrightarrow>
      (\<exists>nms. length nms = length s \<and>
         out = fst st @ concat (map2 (\<lambda>i nm. report_line
                 (humanize_IBytes l (word_of_int (sint (size' i) mod 2 ^ 64)))
                 (formatCount (childrenCount i)) nm) s nms)))
   \<and> WriteAll e l ''never'' s st =
       Some (fst st @ concat (map (\<lambda>i. report_line
                 (humanize_IBytes l (word_of_int (sint (size' i) mod 2 ^ 64)))
                 (formatCount (childrenCount i)) (name i)) s), snd st)
   \<and> uint (uint64 x) = sint x mod 2 ^ 64
   \<and> (sint x < 0 \<longrightarrow> uint (uint64 x) = sint x + 2 ^ 64 \<and> 2 ^ 63 \<le> uint (uint64 x))"
proof -
  have a: "WriteAll e l color s st = Some (out, tty) \<longrightarrow>
      (\<exists>nms. length nms = length s \<and>
         out = fst st @ concat (map2 (\<lambda>i nm. report_line
                 (humanize_IBytes l (word_of_int (sint (size' i) mod 2 ^ 64)))
                 (formatCount (childrenCount i)) nm) s nms))"
    unfolding WriteAll_def using write_records_shape by blast
  have b: "WriteAll e l ''never'' s st =
       Some (fst st @ concat (map (\<lambda>i. report_line
                 (humanize_IBytes l (word_of_int (sint (size' i) mod 2 ^ 64)))
                 (formatCount (childrenCount i)) (name i)) s), snd st)"
    by (simp add: WriteAll_def write_records_plain)
  have d: "sint x < 0 \<longrightarrow> uint (uint64 x) = sint x + 2 ^ 64 \<and> 2 ^ 63 \<le> uint (uint64 x)"
    using uint_uint64_negative [of x] sint_ge [of x] by simp
  from a b d uint_uint64 [of x] show ?thesis by blast
qed

text \<open>A record of size \<open>-5\<close> is written as 18446744073709551611 bytes.\<close>

theorem WriteAll_unsigned_size_witness:
  "sint (size' negative_record) < 0
   \<and> uint (uint64 (size' negative_record)) = 18446744073709551611
   \<and> WriteAll (sample_env True) sample_lib ''never'' [negative_record] ([], None)
       = Some (''18446744073709551611 B           x'' @ [CHR 0x0A], None)
   \<and> WriteAll (sample_env True) sample_lib ''always'' [negative_record] ([], None)
       = Some (''18446744073709551611 B           x'' @ [CHR 0x0A],
               Some (parse_pairs ''di=01;34:ex=01;32:*.txt=00;33:rs=0''))"
proof -
  let ?e = "sample_env True"
  note T = WriteAll_unsigned_size [of ?e sample_lib "''never''" "[negative_record]" "([], None)"
      "[]" None "size' negative_record"]
  have n: "sint (size' negative_record) < 0"
    by (simp add: negative_record_def)
  have u: "uint (uint64 (size' negative_record)) = 18446744073709551611"
    using T n by (simp add: negative_record_def)
  have h: "humanize_IBytes sample_lib 18446744073709551611 = ''18446744073709551611 B''"
    by (simp add: sample_lib_def decimal.simps)
  have "(- 5 :: 64 word) = 18446744073709551611"
    by simp
  with h have h': "humanize_IBytes sample_lib (- 5) = ''18446744073709551611 B''"
    by (simp only:)
  have w: "WriteAll ?e sample_lib ''never'' [negative_record] ([], None)
       = Some (''18446744073709551611 B           x'' @ [CHR 0x0A], None)"
    using T [THEN conjunct2, THEN conjunct1]
    by (simp add: h report_line_def pad_left_def formatCount_def negative_record_def)
  have x: "Key ?e ''x'' = Inr ''or''"
    by (simp add: Key_def sample_env_def sample_lstat_def Orphan_def)
  have d: "parseDircolors ?e = Some (parse_pairs ''di=01;34:ex=01;32:*.txt=00;33:rs=0'')"
    by (simp add: parseDircolors_def sample_env_def)
  have l: "lookup (parse_pairs ''di=01;34:ex=01;32:*.txt=00;33:rs=0'') ''or'' = []"
    by (simp add: lookup_def parse_pairs_def add_pair_def SplitN2_def)
  have f: "ForTTY ?e None ''x'' = Some (''x'', Some (parse_pairs ''di=01;34:ex=01;32:*.txt=00;33:rs=0''))"
    by (simp add: ForTTY_def d x l)
  have "WriteAll ?e sample_lib ''always'' [negative_record] ([], None)
       = Some (report_line (humanize_IBytes sample_lib (uint64 (size' negative_record)))
                  (formatCount (childrenCount negative_record)) ''x'',
               Some (parse_pairs ''di=01;34:ex=01;32:*.txt=00;33:rs=0''))"
    by (simp add: WriteAll_def f negative_record_def)
  then have y: "WriteAll ?e sample_lib ''always'' [negative_record] ([], None)
       = Some (''18446744073709551611 B           x'' @ [CHR 0x0A],
               Some (parse_pairs ''di=01;34:ex=01;32:*.txt=00;33:rs=0''))"
    by (simp add: uint64_def h' report_line_def pad_left_def formatCount_def negative_record_def)
  from n u w y show ?thesis by blast
qed

end
